theory Spec2Isabelle
  imports Main "HOL-Library.Sublist" "HOL-Library.Word"
begin

section \<open>Python values\<close>

text \<open>
  Every operation of the two servers returns a Python dictionary that the tool
  dispatcher serialises with \<^verbatim>\<open>json.dumps\<close>. A result is modelled as a JSON
  value; a dictionary is an association list in insertion order, read with
  \<^const>\<open>map_of\<close>. A float is only ever passed through, so it is carried as its
  literal.
\<close>

datatype json =
    JNull
  | JBool bool
  | JInt int
  | JFloat string
  | JStr string
  | JArr "json list"
  | JObj "(string \<times> json) list"

text \<open>An exception is represented by its message, the text of \<^verbatim>\<open>str(e)\<close>.\<close>

type_synonym exn = string

definition obj_get :: "json \<Rightarrow> string \<Rightarrow> json option" where
  "obj_get j k = (case j of JObj kvs \<Rightarrow> map_of kvs k | _ \<Rightarrow> None)"

definition is_obj :: "json \<Rightarrow> bool" where
  "is_obj j = (case j of JObj kvs \<Rightarrow> True | _ \<Rightarrow> False)"

text \<open>A result carries an error when it is an object with a string under \<^verbatim>\<open>error\<close>.\<close>

definition has_error :: "json \<Rightarrow> bool" where
  "has_error j = (case obj_get j ''error'' of Some (JStr s) \<Rightarrow> True | _ \<Rightarrow> False)"

text \<open>\<^verbatim>\<open>str(n)\<close> of an integer, as the f-strings of the source print it.\<close>

fun str_nat :: "nat \<Rightarrow> string" where
  "str_nat n =
     (if n < 10 then [''0123456789'' ! n]
      else str_nat (n div 10) @ [''0123456789'' ! (n mod 10)])"

declare str_nat.simps [simp del]

definition str_int :: "int \<Rightarrow> string" where
  "str_int i = (if i < 0 then ''-'' @ str_nat (nat (- i)) else str_nat (nat i))"

text \<open>\<^verbatim>\<open>needle in haystack\<close> on strings: the needle occurs as a contiguous run.\<close>

fun py_in :: "string \<Rightarrow> string \<Rightarrow> bool" where
  "py_in needle [] = (needle = [])"
| "py_in needle (c # cs) = (prefix needle (c # cs) \<or> py_in needle cs)"

text \<open>\<^verbatim>\<open>xs[:n]\<close>: a negative bound counts from the end.\<close>

definition py_slice_to :: "'a list \<Rightarrow> int \<Rightarrow> 'a list" where
  "py_slice_to xs n =
     (if 0 \<le> n then take (nat n) xs else take (nat (int (length xs) + n)) xs)"

text \<open>\<^verbatim>\<open>range(start, stop, -1)\<close>: from \<open>start\<close> down to \<open>stop + 1\<close>.\<close>

definition py_range_down :: "int \<Rightarrow> int \<Rightarrow> int list" where
  "py_range_down start stop = rev [stop + 1 .. start]"

text \<open>
  \<^verbatim>\<open>HexBytes.hex()\<close> of the web3 release the monitor imports: lower-case hex
  digits after the prefix \<^verbatim>\<open>0x\<close>. The source relies on the prefix when it compares
  the bytecode of an address without code with \<^verbatim>\<open>"0x"\<close>.
\<close>

definition hex_digit :: "nat \<Rightarrow> char" where
  "hex_digit n = ''0123456789abcdef'' ! (n mod 16)"

definition hexbytes_hex :: "8 word list \<Rightarrow> string" where
  "hexbytes_hex bs =
     ''0x'' @ concat (map (\<lambda>b. [hex_digit (unat b div 16), hex_digit (unat b mod 16)]) bs)"

section \<open>Calls, exceptions and \<^verbatim>\<open>try\<close> blocks\<close>

text \<open>
  A computation yields a value or raises, and records the outbound calls it made in
  order. \<^verbatim>\<open>try: ... except Exception as e: return h(e)\<close> is \<open>try_except\<close>.
\<close>

type_synonym ('c, 'a) io = "(exn + 'a) \<times> 'c list"

definition io_return :: "'a \<Rightarrow> ('c, 'a) io" where
  "io_return x = (Inr x, [])"

definition io_lift :: "exn + 'a \<Rightarrow> ('c, 'a) io" where
  "io_lift outcome = (outcome, [])"

definition io_call :: "'c \<Rightarrow> exn + 'a \<Rightarrow> ('c, 'a) io" where
  "io_call c outcome = (outcome, [c])"

definition io_bind :: "('c, 'a) io \<Rightarrow> ('a \<Rightarrow> ('c, 'b) io) \<Rightarrow> ('c, 'b) io" where
  "io_bind m f =
     (case m of
        (Inl e, cs) \<Rightarrow> (Inl e, cs)
      | (Inr x, cs) \<Rightarrow> (case f x of (r, cs') \<Rightarrow> (r, cs @ cs')))"

definition try_except :: "('c, 'a) io \<Rightarrow> (exn \<Rightarrow> 'a) \<Rightarrow> 'a \<times> 'c list" where
  "try_except m h = (case m of (Inl e, cs) \<Rightarrow> (h e, cs) | (Inr v, cs) \<Rightarrow> (v, cs))"

section \<open>Chain Inspector (\<^verbatim>\<open>blockchain_monitor.py\<close>)\<close>

subsection \<open>The chain endpoints\<close>

record transaction =
  tx_hash :: "8 word list"
  tx_from :: string
  tx_to :: "string option"
  tx_value :: int
  tx_gas_price :: "int option"

record block =
  transactions :: "transaction list"

record event_log =
  ev_block_number :: int
  ev_transaction_hash :: "8 word list"
  ev_args :: "(string \<times> json) list"

text \<open>
  What one endpoint answers during an invocation. Every request may raise, except
  the connectivity probe, which reports a failure as \<open>False\<close>. A filter is created
  by one request and read by a second one.
\<close>

record provider =
  is_connected :: bool
  eth_block_number :: "exn + int"
  eth_get_code :: "string \<Rightarrow> exn + 8 word list"
  eth_get_transaction_count :: "string \<Rightarrow> exn + int"
  eth_get_balance :: "string \<Rightarrow> exn + int"
  eth_get_block :: "int \<Rightarrow> exn + block"
  create_filter :: "string \<Rightarrow> string \<Rightarrow> int \<Rightarrow> exn + (exn + event_log list)"

text \<open>The requests that leave the process, each with the chain it goes to.\<close>

datatype web3_call =
    IsConnected string
  | BlockNumber string
  | GetCode string string
  | GetTransactionCount string string
  | GetBalance string string
  | GetBlock string int
  | CreateFilter string string string int
  | GetAllEntries string

text \<open>
  The surroundings of the monitor: the endpoints by URL, the pure functions of the
  web3 library the source calls (address validation, checksum conversion, unit
  conversion printed with \<^verbatim>\<open>str\<close>), and the successive readings of
  \<^verbatim>\<open>datetime.now().isoformat()\<close>.
\<close>

record chain_env =
  endpoint :: "string \<Rightarrow> provider"
  is_address :: "string \<Rightarrow> bool"
  to_checksum_address :: "string \<Rightarrow> exn + string"
  from_wei :: "int \<Rightarrow> string \<Rightarrow> string"
  now_isoformat :: "nat \<Rightarrow> string"

definition providers :: "chain_env \<Rightarrow> string \<Rightarrow> provider option" where
  "providers env =
     map_of
       [(''polygon-zkevm'', endpoint env ''https://zkevm-rpc.com''),
        (''scroll'', endpoint env ''https://rpc.scroll.io''),
        (''zksync'', endpoint env ''https://mainnet.era.zksync.io'')]"

subsection \<open>\<^verbatim>\<open>monitor_events\<close>\<close>

definition event_json :: "chain_env \<Rightarrow> nat \<times> event_log \<Rightarrow> json" where
  "event_json env ie =
     JObj
       [(''block_number'', JInt (ev_block_number (snd ie))),
        (''transaction_hash'', JStr (hexbytes_hex (ev_transaction_hash (snd ie)))),
        (''args'', JObj (ev_args (snd ie))),
        (''timestamp'', JStr (now_isoformat env (fst ie)))]"

definition monitor_events_try ::
  "chain_env \<Rightarrow> string \<Rightarrow> string \<Rightarrow> string \<Rightarrow> int option \<Rightarrow> (web3_call, json) io" where
  "monitor_events_try env contract_address chain event_name from_block =
     (case providers env chain of
        None \<Rightarrow> io_return (JObj [(''error'', JStr (''Unsupported chain: '' @ chain))])
      | Some w3 \<Rightarrow>
          io_bind (io_call (IsConnected chain) (Inr (is_connected w3))) (\<lambda>connected.
          if \<not> connected then
            io_return (JObj [(''error'', JStr (''Failed to connect to '' @ chain))])
          else if \<not> is_address env contract_address then
            io_return
              (JObj [(''error'', JStr (''Invalid contract address: '' @ contract_address))])
          else
            io_bind (io_lift (to_checksum_address env contract_address)) (\<lambda>contract_address.
            io_bind (io_call (BlockNumber chain) (eth_block_number w3)) (\<lambda>current_block.
            let from_block =
                  (case from_block of
                     None \<Rightarrow> current_block - 1000
                   | Some b \<Rightarrow> if b = 0 then current_block - 1000 else b)
            in
            if event_name \<noteq> ''Transfer'' \<and> event_name \<noteq> ''Staked'' then
              io_return (JObj [(''error'', JStr (''Unknown event: '' @ event_name))])
            else
              io_bind
                (io_call (CreateFilter chain contract_address event_name from_block)
                   (create_filter w3 contract_address event_name from_block))
                (\<lambda>event_filter.
              io_bind (io_call (GetAllEntries chain) event_filter) (\<lambda>events.
              io_return
                (JObj
                   [(''chain'', JStr chain),
                    (''contract'', JStr contract_address),
                    (''event_name'', JStr event_name),
                    (''from_block'', JInt from_block),
                    (''to_block'', JInt current_block),
                    (''events_count'', JInt (int (length events))),
                    (''events'',
                       JArr (map (event_json env)
                          (enumerate 0 (drop (length events - 50) events))))])))))))"

definition monitor_events ::
  "chain_env \<Rightarrow> string \<Rightarrow> string \<Rightarrow> string \<Rightarrow> int option \<Rightarrow> json \<times> web3_call list" where
  "monitor_events env contract_address chain event_name from_block =
     try_except (monitor_events_try env contract_address chain event_name from_block)
       (\<lambda>e. JObj [(''error'', JStr e), (''chain'', JStr chain)])"

subsection \<open>\<^verbatim>\<open>check_vulnerabilities\<close>\<close>

definition selfdestruct_finding :: json where
  "selfdestruct_finding =
     JObj
       [(''severity'', JStr ''HIGH''),
        (''type'', JStr ''SELFDESTRUCT''),
        (''description'', JStr ''Contract contains SELFDESTRUCT opcode - can be destroyed'')]"

definition delegatecall_finding :: json where
  "delegatecall_finding =
     JObj
       [(''severity'', JStr ''MEDIUM''),
        (''type'', JStr ''DELEGATECALL''),
        (''description'',
           JStr ''Contract uses DELEGATECALL - ensure proper access control'')]"

definition size_limit_finding :: "int \<Rightarrow> json" where
  "size_limit_finding bytecode_size =
     JObj
       [(''severity'', JStr ''LOW''),
        (''type'', JStr ''SIZE_LIMIT''),
        (''description'',
           JStr (''Contract size ('' @ str_int bytecode_size
                 @ '' bytes) exceeds recommended limit''))]"

text \<open>The checks of the source on the fetched bytecode, lines 142 to 182.\<close>

definition scan_bytecode :: "chain_env \<Rightarrow> string \<Rightarrow> string \<Rightarrow> string \<Rightarrow> json" where
  "scan_bytecode env chain contract_address bytecode =
     (if bytecode = ''0x'' then JObj [(''error'', JStr ''No contract found at this address'')]
      else
        let vulnerabilities = (if py_in ''ff'' bytecode then [selfdestruct_finding] else []);
            warnings = (if py_in ''f4'' bytecode then [delegatecall_finding] else []);
            bytecode_size = int (length bytecode) div 2;
            warnings =
              (if bytecode_size > 24576 then warnings @ [size_limit_finding bytecode_size]
               else warnings)
        in
        JObj
          [(''chain'', JStr chain),
           (''contract'', JStr contract_address),
           (''bytecode_size'', JInt bytecode_size),
           (''vulnerabilities'', JArr vulnerabilities),
           (''warnings'', JArr warnings),
           (''scan_timestamp'', JStr (now_isoformat env 0)),
           (''recommendation'',
              JStr ''Run full audit with Slither or Mythril for production contracts'')])"

definition check_vulnerabilities_try ::
  "chain_env \<Rightarrow> string \<Rightarrow> string \<Rightarrow> (web3_call, json) io" where
  "check_vulnerabilities_try env contract_address chain =
     (case providers env chain of
        None \<Rightarrow> io_return (JObj [(''error'', JStr (''Connection failed to '' @ chain))])
      | Some w3 \<Rightarrow>
          io_bind (io_call (IsConnected chain) (Inr (is_connected w3))) (\<lambda>connected.
          if \<not> connected then
            io_return (JObj [(''error'', JStr (''Connection failed to '' @ chain))])
          else
            io_bind (io_lift (to_checksum_address env contract_address)) (\<lambda>contract_address.
            io_bind (io_call (GetCode chain contract_address) (eth_get_code w3 contract_address))
              (\<lambda>code.
            io_return (scan_bytecode env chain contract_address (hexbytes_hex code))))))"

definition check_vulnerabilities ::
  "chain_env \<Rightarrow> string \<Rightarrow> string \<Rightarrow> json \<times> web3_call list" where
  "check_vulnerabilities env contract_address chain =
     try_except (check_vulnerabilities_try env contract_address chain)
       (\<lambda>e. JObj [(''error'', JStr e)])"

subsection \<open>\<^verbatim>\<open>track_transactions\<close>\<close>

definition touches :: "string \<Rightarrow> transaction \<Rightarrow> bool" where
  "touches address tx = (tx_from tx = address \<or> tx_to tx = Some address)"

definition tx_json :: "chain_env \<Rightarrow> string \<Rightarrow> int \<Rightarrow> transaction \<Rightarrow> json" where
  "tx_json env address block_num tx =
     JObj
       [(''hash'', JStr (hexbytes_hex (tx_hash tx))),
        (''from'', JStr (tx_from tx)),
        (''to'', (case tx_to tx of None \<Rightarrow> JNull | Some a \<Rightarrow> JStr a)),
        (''value'', JStr (from_wei env (tx_value tx) ''ether'')),
        (''block'', JInt block_num),
        (''gas_price'',
           JStr (from_wei env (case tx_gas_price tx of None \<Rightarrow> 0 | Some g \<Rightarrow> g) ''gwei'')),
        (''type'', JStr (if tx_from tx = address then ''sent'' else ''received''))]"

text \<open>
  The inner loop over the transactions of one block: a matching transaction is
  appended, and the loop is left as soon as the list holds \<open>tx_count\<close> entries.
\<close>

fun scan_block ::
  "chain_env \<Rightarrow> string \<Rightarrow> int \<Rightarrow> int \<Rightarrow> transaction list \<Rightarrow> json list \<Rightarrow> json list" where
  "scan_block env address tx_count block_num [] acc = acc"
| "scan_block env address tx_count block_num (tx # txs) acc =
     (if touches address tx then
        (let acc' = acc @ [tx_json env address block_num tx] in
         if int (length acc') \<ge> tx_count then acc'
         else scan_block env address tx_count block_num txs acc')
      else scan_block env address tx_count block_num txs acc)"

text \<open>
  The outer loop over the block numbers: each block is fetched with its
  transactions, and the loop is left after a block once the list holds
  \<open>tx_count\<close> entries.
\<close>

fun scan_blocks ::
  "chain_env \<Rightarrow> provider \<Rightarrow> string \<Rightarrow> string \<Rightarrow> int \<Rightarrow> int list \<Rightarrow> json list
     \<Rightarrow> (web3_call, json list) io" where
  "scan_blocks env w3 chain address tx_count [] acc = io_return acc"
| "scan_blocks env w3 chain address tx_count (block_num # rest) acc =
     io_bind (io_call (GetBlock chain block_num) (eth_get_block w3 block_num)) (\<lambda>blk.
     let acc' = scan_block env address tx_count block_num (transactions blk) acc in
     if int (length acc') \<ge> tx_count then io_return acc'
     else scan_blocks env w3 chain address tx_count rest acc')"

definition track_transactions_try ::
  "chain_env \<Rightarrow> string \<Rightarrow> string \<Rightarrow> int \<Rightarrow> (web3_call, json) io" where
  "track_transactions_try env address chain tx_count =
     (case providers env chain of
        None \<Rightarrow> io_return (JObj [(''error'', JStr (''Connection failed to '' @ chain))])
      | Some w3 \<Rightarrow>
          io_bind (io_call (IsConnected chain) (Inr (is_connected w3))) (\<lambda>connected.
          if \<not> connected then
            io_return (JObj [(''error'', JStr (''Connection failed to '' @ chain))])
          else
            io_bind (io_lift (to_checksum_address env address)) (\<lambda>address.
            io_bind
              (io_call (GetTransactionCount chain address)
                 (eth_get_transaction_count w3 address)) (\<lambda>nonce.
            io_bind (io_call (GetBalance chain address) (eth_get_balance w3 address))
              (\<lambda>balance_wei.
            let balance_eth = from_wei env balance_wei ''ether'' in
            io_bind (io_call (BlockNumber chain) (eth_block_number w3)) (\<lambda>current_block.
            io_bind
              (scan_blocks env w3 chain address tx_count
                 (py_range_down current_block (max (current_block - 100) 0)) [])
              (\<lambda>transactions.
            io_return
              (JObj
                 [(''chain'', JStr chain),
                  (''address'', JStr address),
                  (''balance_eth'', JStr balance_eth),
                  (''transaction_count'', JInt nonce),
                  (''recent_transactions'', JArr (py_slice_to transactions tx_count)),
                  (''timestamp'', JStr (now_isoformat env 0))]))))))))"

definition track_transactions ::
  "chain_env \<Rightarrow> string \<Rightarrow> string \<Rightarrow> int \<Rightarrow> json \<times> web3_call list" where
  "track_transactions env address chain tx_count =
     try_except (track_transactions_try env address chain tx_count)
       (\<lambda>e. JObj [(''error'', JStr e)])"

section \<open>Market Aggregator (\<^verbatim>\<open>web3_aggregator.py\<close>)\<close>

subsection \<open>Python helpers\<close>

definition quoted :: "string \<Rightarrow> string" where
  "quoted s = [CHR 0x27] @ s @ [CHR 0x27]"

definition py_type_name :: "json \<Rightarrow> string" where
  "py_type_name j =
     (case j of
        JNull \<Rightarrow> ''NoneType''
      | JBool b \<Rightarrow> ''bool''
      | JInt i \<Rightarrow> ''int''
      | JFloat f \<Rightarrow> ''float''
      | JStr s \<Rightarrow> ''str''
      | JArr xs \<Rightarrow> ''list''
      | JObj kvs \<Rightarrow> ''dict'')"

text \<open>The message of the \<^verbatim>\<open>AttributeError\<close> raised by \<^verbatim>\<open>value.attr\<close>.\<close>

definition attribute_error :: "json \<Rightarrow> string \<Rightarrow> exn" where
  "attribute_error j attr =
     quoted (py_type_name j) @ '' object has no attribute '' @ quoted attr"

text \<open>
  \<^verbatim>\<open>data.get\<close> exists on a dictionary only: on any other JSON value the attribute
  lookup raises.
\<close>

definition as_dict :: "json \<Rightarrow> exn + (string \<times> json) list" where
  "as_dict j = (case j of JObj kvs \<Rightarrow> Inr kvs | _ \<Rightarrow> Inl (attribute_error j ''get''))"

definition py_get :: "(string \<times> json) list \<Rightarrow> string \<Rightarrow> json \<Rightarrow> json" where
  "py_get d k dflt = (case map_of d k of Some v \<Rightarrow> v | None \<Rightarrow> dflt)"

text \<open>
  \<^verbatim>\<open>int(x, 16)\<close>: a string is stripped of surrounding white space, may carry a
  sign and the prefix \<^verbatim>\<open>0x\<close>, and holds hex digits, single underscores allowed
  between digits and after the prefix; anything else raises. A character stands for
  a code point below 256; of these the conversion strips the ASCII white space and
  the code points 0x85 and 0xA0.
\<close>

definition hex_val :: "char \<Rightarrow> int option" where
  "hex_val c =
     (let n = (of_char c :: nat) in
      if 48 \<le> n \<and> n \<le> 57 then Some (int n - 48)
      else if 97 \<le> n \<and> n \<le> 102 then Some (int n - 87)
      else if 65 \<le> n \<and> n \<le> 70 then Some (int n - 55)
      else None)"

fun hex_digits_val :: "bool \<Rightarrow> int \<Rightarrow> string \<Rightarrow> int option" where
  "hex_digits_val after_digit acc [] = (if after_digit then Some acc else None)"
| "hex_digits_val after_digit acc (c # cs) =
     (if c = CHR ''_'' then
        (if after_digit then hex_digits_val False acc cs else None)
      else
        (case hex_val c of
           None \<Rightarrow> None
         | Some d \<Rightarrow> hex_digits_val True (16 * acc + d) cs))"

definition is_space :: "char \<Rightarrow> bool" where
  "is_space c =
     (c \<in> set [CHR '' '', CHR 0x09, CHR 0x0A, CHR 0x0B, CHR 0x0C, CHR 0x0D, CHR 0x85, CHR 0xA0])"

definition strip :: "string \<Rightarrow> string" where
  "strip s = rev (dropWhile is_space (rev (dropWhile is_space s)))"

definition parse_hex :: "string \<Rightarrow> int option" where
  "parse_hex s =
     (let t = strip s;
          negative = (take 1 t = ''-'');
          u = (if take 1 t = ''-'' \<or> take 1 t = ''+'' then drop 1 t else t);
          digits =
            (if take 2 u = ''0x'' \<or> take 2 u = ''0X'' then
               (if take 1 (drop 2 u) = ''_'' then drop 3 u else drop 2 u)
             else u)
      in map_option (\<lambda>v. if negative then - v else v) (hex_digits_val False 0 digits))"

definition py_int16 :: "json \<Rightarrow> exn + int" where
  "py_int16 x =
     (case x of
        JStr s \<Rightarrow>
          (case parse_hex s of
             Some v \<Rightarrow> Inr v
           | None \<Rightarrow> Inl (''invalid literal for int() with base 16: '' @ quoted s))
      | _ \<Rightarrow> Inl (''int() can'' @ [CHR 0x27] @ ''t convert non-string with explicit base''))"

text \<open>
  \<^verbatim>\<open>(now - cached_time).seconds\<close>: the difference of two readings of the clock, in
  microseconds, is normalised into days, seconds below one day and microseconds;
  the attribute is the middle component.
\<close>

definition timedelta_seconds :: "int \<Rightarrow> int \<Rightarrow> int" where
  "timedelta_seconds now cached_time = ((now - cached_time) mod 86400000000) div 1000000"

subsection \<open>The outbound session and the cache\<close>

record http_response =
  resp_status :: int
  resp_json :: "exn + json"

record http_session =
  http_get :: "string \<Rightarrow> (string \<times> string) list \<Rightarrow> exn + http_response"
  http_post :: "string \<Rightarrow> json \<Rightarrow> exn + http_response"

datatype http_call =
    HttpGet string "(string \<times> string) list"
  | HttpPost string json

text \<open>
  The aggregator object: the session (absent outside the session context) and the
  cache, from key to the pair of the time of the fetch and the payload.
\<close>

record aggregator =
  session :: "http_session option"
  cache :: "string \<Rightarrow> (int \<times> json) option"

definition DEFILLAMA_BASE_URL :: string where
  "DEFILLAMA_BASE_URL = ''https://api.llama.fi''"

definition COINGECKO_BASE_URL :: string where
  "COINGECKO_BASE_URL = ''https://api.coingecko.com/api/v3''"

definition ZKEVM_RPC_URL :: string where
  "ZKEVM_RPC_URL = ''https://zkevm-rpc.com''"

definition session_get ::
  "aggregator \<Rightarrow> string \<Rightarrow> (string \<times> string) list \<Rightarrow> (http_call, http_response) io" where
  "session_get self url params =
     (case session self of
        None \<Rightarrow> io_lift (Inl (attribute_error JNull ''get''))
      | Some s \<Rightarrow> io_call (HttpGet url params) (http_get s url params))"

definition session_post ::
  "aggregator \<Rightarrow> string \<Rightarrow> json \<Rightarrow> (http_call, http_response) io" where
  "session_post self url payload =
     (case session self of
        None \<Rightarrow> io_lift (Inl (attribute_error JNull ''post''))
      | Some s \<Rightarrow> io_call (HttpPost url payload) (http_post s url payload))"

text \<open>
  The cache check that opens \<^verbatim>\<open>fetch_tvl\<close> and \<^verbatim>\<open>get_token_price\<close>: the
  cached payload when the key is present and the seconds component of its age is
  below the window.
\<close>

definition cached :: "aggregator \<Rightarrow> string \<Rightarrow> int \<Rightarrow> int \<Rightarrow> json option" where
  "cached self cache_key now window =
     (case cache self cache_key of
        None \<Rightarrow> None
      | Some (cached_time, data) \<Rightarrow>
          if timedelta_seconds now cached_time < window then Some data else None)"

subsection \<open>\<^verbatim>\<open>fetch_tvl\<close>\<close>

definition fetch_tvl_try ::
  "aggregator \<Rightarrow> string \<Rightarrow> int \<Rightarrow> int \<Rightarrow> (http_call, json \<times> aggregator) io" where
  "fetch_tvl_try self protocol now_check now_store =
     (let cache_key = ''tvl_'' @ protocol in
      case cached self cache_key now_check 3600 of
        Some data \<Rightarrow> io_return (data, self)
      | None \<Rightarrow>
          let url =
                (if protocol = ''all'' then DEFILLAMA_BASE_URL @ ''/tvl''
                 else DEFILLAMA_BASE_URL @ ''/protocol/'' @ protocol)
          in
          io_bind (session_get self url []) (\<lambda>response.
          if resp_status response = 200 then
            io_bind (io_lift (resp_json response)) (\<lambda>data.
            io_return
              (data, self \<lparr> cache := (cache self) (cache_key \<mapsto> (now_store, data)) \<rparr>))
          else
            io_return
              (JObj
                 [(''error'', JStr (''HTTP '' @ str_int (resp_status response))),
                  (''protocol'', JStr protocol)],
               self)))"

definition fetch_tvl ::
  "aggregator \<Rightarrow> string \<Rightarrow> int \<Rightarrow> int \<Rightarrow> (json \<times> aggregator) \<times> http_call list" where
  "fetch_tvl self protocol now_check now_store =
     try_except (fetch_tvl_try self protocol now_check now_store)
       (\<lambda>e. (JObj [(''error'', JStr e), (''protocol'', JStr protocol)], self))"

subsection \<open>\<^verbatim>\<open>get_protocol_data\<close>\<close>

definition get_protocol_data_try ::
  "aggregator \<Rightarrow> string \<Rightarrow> (http_call, json \<times> aggregator) io" where
  "get_protocol_data_try self protocol_name =
     (let url = DEFILLAMA_BASE_URL @ ''/protocol/'' @ protocol_name in
      io_bind (session_get self url []) (\<lambda>response.
      if resp_status response = 200 then
        io_bind (io_lift (resp_json response)) (\<lambda>data.
        io_bind (io_lift (as_dict data)) (\<lambda>d.
        io_return
          (JObj
             [(''name'', py_get d ''name'' JNull),
              (''symbol'', py_get d ''symbol'' JNull),
              (''tvl'', py_get d ''tvl'' JNull),
              (''chainTvls'', py_get d ''chainTvls'' (JObj [])),
              (''change_1h'', py_get d ''change_1h'' JNull),
              (''change_1d'', py_get d ''change_1d'' JNull),
              (''change_7d'', py_get d ''change_7d'' JNull),
              (''mcap'', py_get d ''mcap'' JNull)],
           self)))
      else
        io_return
          (JObj [(''error'', JStr (''Protocol '' @ protocol_name @ '' not found''))], self)))"

definition get_protocol_data ::
  "aggregator \<Rightarrow> string \<Rightarrow> (json \<times> aggregator) \<times> http_call list" where
  "get_protocol_data self protocol_name =
     try_except (get_protocol_data_try self protocol_name)
       (\<lambda>e. (JObj [(''error'', JStr e)], self))"

subsection \<open>\<^verbatim>\<open>query_blockchain\<close>\<close>

definition rpc_urls :: "string \<Rightarrow> string option" where
  "rpc_urls =
     map_of
       [(''polygon-zkevm'', ''https://zkevm-rpc.com''),
        (''scroll'', ''https://rpc.scroll.io''),
        (''zksync'', ''https://mainnet.era.zksync.io'')]"

definition rpc_payload :: "string \<Rightarrow> json" where
  "rpc_payload method =
     JObj
       [(''jsonrpc'', JStr ''2.0''),
        (''method'', JStr method),
        (''params'', JArr []),
        (''id'', JInt 1)]"

definition query_blockchain_try ::
  "aggregator \<Rightarrow> string \<Rightarrow> string \<Rightarrow> (http_call, json \<times> aggregator) io" where
  "query_blockchain_try self chain method =
     (let rpc_url = (case rpc_urls chain of Some url \<Rightarrow> url | None \<Rightarrow> ZKEVM_RPC_URL);
          payload = rpc_payload method
      in
      io_bind (session_post self rpc_url payload) (\<lambda>response.
      if resp_status response = 200 then
        io_bind (io_lift (resp_json response)) (\<lambda>data.
        io_bind (io_lift (as_dict data)) (\<lambda>d.
        let result = py_get d ''result'' JNull in
        io_bind
          (if method = ''eth_blockNumber'' then
             io_bind (io_lift (py_int16 (py_get d ''result'' (JStr ''0x0''))))
               (\<lambda>n. io_return (JInt n))
           else io_return JNull)
          (\<lambda>block_number.
        io_return
          (JObj
             [(''chain'', JStr chain),
              (''method'', JStr method),
              (''result'', result),
              (''block_number'', block_number)],
           self))))
      else
        io_return
          (JObj [(''error'', JStr (''RPC call failed: '' @ str_int (resp_status response)))],
           self)))"

definition query_blockchain ::
  "aggregator \<Rightarrow> string \<Rightarrow> string \<Rightarrow> (json \<times> aggregator) \<times> http_call list" where
  "query_blockchain self chain method =
     try_except (query_blockchain_try self chain method)
       (\<lambda>e. (JObj [(''error'', JStr e), (''chain'', JStr chain)], self))"

subsection \<open>\<^verbatim>\<open>get_token_price\<close>\<close>

definition get_token_price_try ::
  "aggregator \<Rightarrow> string \<Rightarrow> int \<Rightarrow> string \<Rightarrow> int \<Rightarrow> (http_call, json \<times> aggregator) io" where
  "get_token_price_try self token_id now_check now_stamp now_store =
     (let cache_key = ''price_'' @ token_id in
      case cached self cache_key now_check 300 of
        Some data \<Rightarrow> io_return (data, self)
      | None \<Rightarrow>
          let url = COINGECKO_BASE_URL @ ''/simple/price'';
              params =
                [(''ids'', token_id),
                 (''vs_currencies'', ''usd''),
                 (''include_24hr_change'', ''true''),
                 (''include_market_cap'', ''true'')]
          in
          io_bind (session_get self url params) (\<lambda>response.
          if resp_status response = 200 then
            io_bind (io_lift (resp_json response)) (\<lambda>data.
            io_bind (io_lift (as_dict data)) (\<lambda>d.
            io_bind (io_lift (as_dict (py_get d token_id (JObj [])))) (\<lambda>entry.
            let result =
                  JObj
                    [(''token'', JStr token_id),
                     (''price_usd'', py_get entry ''usd'' JNull),
                     (''change_24h'', py_get entry ''usd_24h_change'' JNull),
                     (''market_cap'', py_get entry ''usd_market_cap'' JNull),
                     (''timestamp'', JStr now_stamp)]
            in
            io_return
              (result, self \<lparr> cache := (cache self) (cache_key \<mapsto> (now_store, result)) \<rparr>))))
          else
            io_return
              (JObj
                 [(''error'',
                   JStr (''CoinGecko API error: '' @ str_int (resp_status response)))],
               self)))"

definition get_token_price ::
  "aggregator \<Rightarrow> string \<Rightarrow> int \<Rightarrow> string \<Rightarrow> int \<Rightarrow> (json \<times> aggregator) \<times> http_call list" where
  "get_token_price self token_id now_check now_stamp now_store =
     try_except (get_token_price_try self token_id now_check now_stamp now_store)
       (\<lambda>e. (JObj [(''error'', JStr e)], self))"


section \<open>Observations on a run\<close>

text \<open>
  The block numbers requested by an invocation, in order; the entries the scan
  produces for one block; and the number of transactions touching an address in a
  list of blocks. \<open>needed r cs\<close> is the number of blocks the scan reads when \<open>r\<close>
  entries are still wanted and the blocks ahead hold \<open>cs\<close> matches each: it reads
  at least one block and stops after the first block that completes the count.
\<close>

fun block_of :: "web3_call \<Rightarrow> int option" where
  "block_of (GetBlock chain block_num) = Some block_num"
| "block_of _ = None"

definition blocks_examined :: "web3_call list \<Rightarrow> int list" where
  "blocks_examined calls = List.map_filter block_of calls"




text \<open>\<^verbatim>\<open>format(n, "x")\<close>: the hex digits of a block number, as an endpoint sends them.\<close>

fun hex_of_nat :: "nat \<Rightarrow> string" where
  "hex_of_nat n =
     (if n < 16 then [hex_digit n] else hex_of_nat (n div 16) @ [hex_digit (n mod 16)])"

declare hex_of_nat.simps [simp del]


text \<open>
  The shape of a result: an object that carries an error string or the field that
  marks the operation's success.
\<close>

definition result_shape :: "string \<Rightarrow> json \<Rightarrow> bool" where
  "result_shape key r = (is_obj r \<and> (has_error r \<or> obj_get r key \<noteq> None))"

text \<open>Every cached token price is an object.\<close>

definition price_entries_are_objects :: "aggregator \<Rightarrow> bool" where
  "price_entries_are_objects self =
     (\<forall>token_id t d. cache self (''price_'' @ token_id) = Some (t, d) \<longrightarrow> is_obj d)"

text \<open>The address \<^verbatim>\<open>fetch_tvl\<close> requests for a protocol.\<close>

definition tvl_url :: "string \<Rightarrow> string" where
  "tvl_url protocol =
     (if protocol = ''all'' then DEFILLAMA_BASE_URL @ ''/tvl''
      else DEFILLAMA_BASE_URL @ ''/protocol/'' @ protocol)"

text \<open>The query parameters and the reshaped result of \<^verbatim>\<open>get_token_price\<close>.\<close>

definition price_params :: "string \<Rightarrow> (string \<times> string) list" where
  "price_params token_id =
     [(''ids'', token_id),
      (''vs_currencies'', ''usd''),
      (''include_24hr_change'', ''true''),
      (''include_market_cap'', ''true'')]"

definition price_result :: "string \<Rightarrow> (string \<times> json) list \<Rightarrow> string \<Rightarrow> json" where
  "price_result token_id entry now_stamp =
     JObj
       [(''token'', JStr token_id),
        (''price_usd'', py_get entry ''usd'' JNull),
        (''change_24h'', py_get entry ''usd_24h_change'' JNull),
        (''market_cap'', py_get entry ''usd_market_cap'' JNull),
        (''timestamp'', JStr now_stamp)]"

section \<open>Sample surroundings\<close>

text \<open>
  Concrete endpoints and library functions at which the theorems below are
  instantiated. The sample address check accepts forty hex digits after an optional
  prefix.
\<close>

definition sample_provider :: "8 word list \<Rightarrow> (int \<Rightarrow> exn + block) \<Rightarrow> provider" where
  "sample_provider code blocks =
     \<lparr> is_connected = True,
       eth_block_number = Inr 5,
       eth_get_code = (\<lambda>a. Inr code),
       eth_get_transaction_count = (\<lambda>a. Inr 7),
       eth_get_balance = (\<lambda>a. Inr 1000),
       eth_get_block = blocks,
       create_filter = (\<lambda>a e b. Inr (Inr [])) \<rparr>"

definition is_hex_char :: "char \<Rightarrow> bool" where
  "is_hex_char c = (c \<in> set ''0123456789abcdefABCDEF'')"

definition is_hex_address :: "string \<Rightarrow> bool" where
  "is_hex_address s =
     (let u = (if take 2 s = ''0x'' \<or> take 2 s = ''0X'' then drop 2 s else s)
      in length u = 40 \<and> list_all is_hex_char u)"

definition sample_env :: "provider \<Rightarrow> chain_env" where
  "sample_env w3 =
     \<lparr> endpoint = (\<lambda>url. w3),
       is_address = is_hex_address,
       to_checksum_address =
         (\<lambda>a. if is_hex_address a then Inr a else Inl ''Unknown format for address''),
       from_wei = (\<lambda>v unit. str_int v),
       now_isoformat = (\<lambda>k. ''2024-01-01T00:00:00'') \<rparr>"

definition sample_address :: string where
  "sample_address = ''0x00000000000000000000000000000000000000aa''"

definition offline_provider :: provider where
  "offline_provider = (sample_provider [] (\<lambda>n. Inl ''unreachable'')) \<lparr> is_connected := False \<rparr>"

definition sample_tx :: transaction where
  "sample_tx =
     \<lparr> tx_hash = [0xab], tx_from = sample_address, tx_to = None, tx_value = 3,
       tx_gas_price = Some 2 \<rparr>"

definition busy_blocks :: "int \<Rightarrow> exn + block" where
  "busy_blocks n = Inr \<lparr> transactions = [sample_tx] \<rparr>"

definition empty_blocks :: "int \<Rightarrow> exn + block" where
  "empty_blocks n = Inr \<lparr> transactions = [] \<rparr>"

definition sample_session :: "int \<Rightarrow> exn + json \<Rightarrow> http_session" where
  "sample_session st body =
     \<lparr> http_get = (\<lambda>url params. Inr \<lparr> resp_status = st, resp_json = body \<rparr>),
       http_post = (\<lambda>url payload. Inr \<lparr> resp_status = st, resp_json = body \<rparr>) \<rparr>"

definition sample_aggregator :: "int \<Rightarrow> exn + json \<Rightarrow> aggregator" where
  "sample_aggregator st body =
     \<lparr> session = Some (sample_session st body), cache = (\<lambda>k. None) \<rparr>"

definition detached_aggregator :: aggregator where
  "detached_aggregator = \<lparr> session = None, cache = (\<lambda>k. None) \<rparr>"

section \<open>Basic facts\<close>

lemmas io_defs = io_bind_def io_call_def io_return_def io_lift_def try_except_def

lemma str_nat_small: "n < 10 \<Longrightarrow> str_nat n = [''0123456789'' ! n]"
  by (simp add: str_nat.simps)

lemma str_nat_big:
  "10 \<le> n \<Longrightarrow> str_nat n = str_nat (n div 10) @ [''0123456789'' ! (n mod 10)]"
  by (subst str_nat.simps) simp

lemma py_in_sublist: "py_in needle hay = sublist needle hay"
  by (induction hay) (auto simp: sublist_Cons_right)

lemma length_hexbytes_hex: "length (hexbytes_hex bs) = 2 + 2 * length bs"
  by (induction bs) (simp_all add: hexbytes_hex_def)

lemma hexbytes_hex_empty: "hexbytes_hex bs = ''0x'' \<longleftrightarrow> bs = []"
proof
  assume "hexbytes_hex bs = ''0x''"
  then have "length (hexbytes_hex bs) = 2" by simp
  then show "bs = []" by (simp add: length_hexbytes_hex)
qed (simp add: hexbytes_hex_def)

lemma check_vulnerabilities_fetched:
  assumes "providers env chain = Some w3" and "is_connected w3"
    and "to_checksum_address env contract_address = Inr a"
    and "eth_get_code w3 a = Inr code"
  shows "check_vulnerabilities env contract_address chain =
           (scan_bytecode env chain a (hexbytes_hex code), [IsConnected chain, GetCode chain a])"
  using assms by (simp add: check_vulnerabilities_def check_vulnerabilities_try_def io_defs)

lemma sample_is_address [simp]: "is_hex_address sample_address"
  by (simp add: is_hex_address_def sample_address_def is_hex_char_def)

lemma providers_sample [simp]: "providers (sample_env w3) ''polygon-zkevm'' = Some w3"
  by (simp add: providers_def sample_env_def)

subsection \<open>The bytecode risk scan\<close>

text \<open>
  Claim C7. When the bytecode fetched for the address is the empty-contract sentinel
  \<^verbatim>\<open>"0x"\<close>, \<^verbatim>\<open>check_vulnerabilities\<close> returns the object whose only field is
  \<^verbatim>\<open>error\<close> with the text \<^verbatim>\<open>No contract found at this address\<close>; the object has no
  \<^verbatim>\<open>vulnerabilities\<close> list.
\<close>
theorem check_vulnerabilities_no_contract:
  assumes "providers env chain = Some w3" and "is_connected w3"
    and "to_checksum_address env contract_address = Inr a"
    and "eth_get_code w3 a = Inr code"
    and "hexbytes_hex code = ''0x''"
  shows "fst (check_vulnerabilities env contract_address chain)
           = JObj [(''error'', JStr ''No contract found at this address'')]
         \<and> obj_get (fst (check_vulnerabilities env contract_address chain)) ''error''
           = Some (JStr ''No contract found at this address'')
         \<and> obj_get (fst (check_vulnerabilities env contract_address chain)) ''vulnerabilities''
           = None"
  using assms
  by (simp add: check_vulnerabilities_fetched scan_bytecode_def obj_get_def)

lemma sample_provider_simps [simp]:
  "is_connected (sample_provider code blocks)"
  "eth_block_number (sample_provider code blocks) = Inr 5"
  "eth_get_code (sample_provider code blocks) a = Inr code"
  "eth_get_transaction_count (sample_provider code blocks) a = Inr 7"
  "eth_get_balance (sample_provider code blocks) a = Inr 1000"
  "eth_get_block (sample_provider code blocks) = blocks"
  "create_filter (sample_provider code blocks) a e b = Inr (Inr [])"
  by (simp_all add: sample_provider_def)

lemma sample_env_simps [simp]:
  "is_address (sample_env w3) = is_hex_address"
  "to_checksum_address (sample_env w3) sample_address = Inr sample_address"
  "from_wei (sample_env w3) v u = str_int v"
  "now_isoformat (sample_env w3) k = ''2024-01-01T00:00:00''"
  by (simp_all add: sample_env_def)

theorem check_vulnerabilities_no_contract_witness:
  "hexbytes_hex [] = ''0x''
   \<and> fst (check_vulnerabilities (sample_env (sample_provider [] (\<lambda>n. Inl ''no block'')))
        sample_address ''polygon-zkevm'')
      = JObj [(''error'', JStr ''No contract found at this address'')]
   \<and> obj_get (fst (check_vulnerabilities (sample_env (sample_provider [] (\<lambda>n. Inl ''no block'')))
        sample_address ''polygon-zkevm'')) ''vulnerabilities'' = None"
proof -
  let ?w3 = "sample_provider [] (\<lambda>n. Inl ''no block'')"
  have h: "hexbytes_hex [] = ''0x''" by (simp add: hexbytes_hex_def)
  show ?thesis
    using h check_vulnerabilities_no_contract
      [of "sample_env ?w3" "''polygon-zkevm''" ?w3 sample_address sample_address "[]"]
    by (simp add: obj_get_def)
qed

lemma finding_distinct:
  "delegatecall_finding \<noteq> size_limit_finding n"
  by (simp add: delegatecall_finding_def size_limit_finding_def)

text \<open>
  Claim C5. For every fetched bytecode string other than the sentinel,
  \<^verbatim>\<open>check_vulnerabilities\<close> lists the HIGH-severity SELFDESTRUCT finding among the
  vulnerabilities exactly when the string contains \<^verbatim>\<open>ff\<close>, and lists the
  MEDIUM-severity DELEGATECALL finding among the warnings exactly when the string
  contains \<^verbatim>\<open>f4\<close>.
\<close>
theorem check_vulnerabilities_opcode_findings:
  assumes "providers env chain = Some w3" and "is_connected w3"
    and "to_checksum_address env contract_address = Inr a"
    and "eth_get_code w3 a = Inr code"
    and "bytecode = hexbytes_hex code"
    and "bytecode \<noteq> ''0x''"
  shows "\<exists>vs ws.
           obj_get (fst (check_vulnerabilities env contract_address chain)) ''vulnerabilities''
             = Some (JArr vs)
         \<and> obj_get (fst (check_vulnerabilities env contract_address chain)) ''warnings''
             = Some (JArr ws)
         \<and> (selfdestruct_finding \<in> set vs \<longleftrightarrow> sublist ''ff'' bytecode)
         \<and> (delegatecall_finding \<in> set ws \<longleftrightarrow> sublist ''f4'' bytecode)
         \<and> obj_get selfdestruct_finding ''severity'' = Some (JStr ''HIGH'')
         \<and> obj_get selfdestruct_finding ''type'' = Some (JStr ''SELFDESTRUCT'')
         \<and> obj_get delegatecall_finding ''severity'' = Some (JStr ''MEDIUM'')
         \<and> obj_get delegatecall_finding ''type'' = Some (JStr ''DELEGATECALL'')"
proof -
  have fields:
    "obj_get selfdestruct_finding ''severity'' = Some (JStr ''HIGH'')"
    "obj_get selfdestruct_finding ''type'' = Some (JStr ''SELFDESTRUCT'')"
    "obj_get delegatecall_finding ''severity'' = Some (JStr ''MEDIUM'')"
    "obj_get delegatecall_finding ''type'' = Some (JStr ''DELEGATECALL'')"
    by (simp_all add: obj_get_def selfdestruct_finding_def delegatecall_finding_def)
  have r: "fst (check_vulnerabilities env contract_address chain)
             = scan_bytecode env chain a bytecode"
    using assms by (simp add: check_vulnerabilities_fetched)
  show ?thesis
    unfolding r using assms(6) fields
    by (simp add: scan_bytecode_def obj_get_def Let_def py_in_sublist finding_distinct)
qed


theorem check_vulnerabilities_opcode_findings_witness:
  "hexbytes_hex [0x60, 0xff, 0xf4] = ''0x60fff4''
   \<and> sublist ''ff'' ''0x60fff4'' \<and> sublist ''f4'' ''0x60fff4''
   \<and> (\<exists>vs ws.
        obj_get (fst (check_vulnerabilities
            (sample_env (sample_provider [0x60, 0xff, 0xf4] (\<lambda>n. Inl ''no block'')))
            sample_address ''polygon-zkevm'')) ''vulnerabilities'' = Some (JArr vs)
      \<and> obj_get (fst (check_vulnerabilities
            (sample_env (sample_provider [0x60, 0xff, 0xf4] (\<lambda>n. Inl ''no block'')))
            sample_address ''polygon-zkevm'')) ''warnings'' = Some (JArr ws)
      \<and> selfdestruct_finding \<in> set vs \<and> delegatecall_finding \<in> set ws)"
proof -
  let ?code = "[0x60, 0xff, 0xf4] :: 8 word list"
  let ?w3 = "sample_provider ?code (\<lambda>n. Inl ''no block'')"
  have h: "hexbytes_hex ?code = ''0x60fff4''"
    by (simp add: hexbytes_hex_def hex_digit_def)
  have ff: "sublist ''ff'' ''0x60fff4''" and f4: "sublist ''f4'' ''0x60fff4''"
    by (simp_all flip: py_in_sublist)
  show ?thesis
    using h ff f4 check_vulnerabilities_opcode_findings
      [of "sample_env ?w3" "''polygon-zkevm''" ?w3 sample_address sample_address ?code
          "''0x60fff4''"]
    by auto
qed

lemma hexbytes_hex_zeros:
  "hexbytes_hex (replicate n 0) = ''0x'' @ replicate (2 * n) CHR ''0''"
  by (induction n) (simp_all add: hexbytes_hex_def hex_digit_def)

lemma py_in_zeros: "\<not> py_in [CHR ''f'', c] (hexbytes_hex (replicate n 0))"
proof
  assume "py_in [CHR ''f'', c] (hexbytes_hex (replicate n 0))"
  then have "sublist [CHR ''f'', c] (''0x'' @ replicate (2 * n) CHR ''0'')"
    by (simp add: py_in_sublist hexbytes_hex_zeros)
  then have "set [CHR ''f'', c] \<subseteq> set (''0x'' @ replicate (2 * n) CHR ''0'')"
    by (rule set_mono_sublist)
  then show False by (auto split: if_splits)
qed

lemma bytecode_size_off_by_one:
  "int (length (hexbytes_hex code)) div 2 = int (length code) + 1"
  by (simp add: length_hexbytes_hex)

text \<open>
  Claim C2, evaluated at a contract of exactly 24576 bytes (49152 hex digits after
  the prefix): the source halves the length of the prefixed string, reports
  24577 bytes and adds the SIZE_LIMIT warning.
\<close>
theorem check_vulnerabilities_size_boundary:
  "length (replicate 24576 (0 :: 8 word)) = 24576
   \<and> fst (check_vulnerabilities
          (sample_env (sample_provider (replicate 24576 0) (\<lambda>n. Inl ''no block'')))
          sample_address ''polygon-zkevm'')
     = JObj
         [(''chain'', JStr ''polygon-zkevm''),
          (''contract'', JStr sample_address),
          (''bytecode_size'', JInt 24577),
          (''vulnerabilities'', JArr []),
          (''warnings'',
             JArr [JObj [(''severity'', JStr ''LOW''), (''type'', JStr ''SIZE_LIMIT''),
                         (''description'',
                            JStr ''Contract size (24577 bytes) exceeds recommended limit'')]]),
          (''scan_timestamp'', JStr ''2024-01-01T00:00:00''),
          (''recommendation'',
             JStr ''Run full audit with Slither or Mythril for production contracts'')]"
proof -
  let ?code = "replicate 24576 (0 :: 8 word)"
  let ?w3 = "sample_provider ?code (\<lambda>n. Inl ''no block'')"
  have s: "str_int 24577 = ''24577''"
    by (simp add: str_int_def str_nat_small str_nat_big)
  have ne: "hexbytes_hex ?code \<noteq> ''0x''"
    by (simp add: hexbytes_hex_empty)
  have r: "fst (check_vulnerabilities (sample_env ?w3) sample_address ''polygon-zkevm'')
             = scan_bytecode (sample_env ?w3) ''polygon-zkevm'' sample_address
                 (hexbytes_hex ?code)"
    by (simp add: check_vulnerabilities_fetched [of _ _ ?w3 _ sample_address ?code])
  show ?thesis
    unfolding r
    using ne
    by (simp add: scan_bytecode_def Let_def py_in_zeros bytecode_size_off_by_one
          size_limit_finding_def s)
qed


subsection \<open>The transaction tracker\<close>







lemma blocks_examined_simps [simp]:
  "blocks_examined [] = []"
  "blocks_examined (GetBlock chain b # cs) = b # blocks_examined cs"
  "blocks_examined (IsConnected chain # cs) = blocks_examined cs"
  "blocks_examined (BlockNumber chain # cs) = blocks_examined cs"
  "blocks_examined (GetCode chain a # cs) = blocks_examined cs"
  "blocks_examined (GetTransactionCount chain a # cs) = blocks_examined cs"
  "blocks_examined (GetBalance chain a # cs) = blocks_examined cs"
  "blocks_examined (CreateFilter chain a e fb # cs) = blocks_examined cs"
  "blocks_examined (GetAllEntries chain # cs) = blocks_examined cs"
  by (simp_all add: blocks_examined_def List.map_filter_simps)

lemma blocks_examined_GetBlock [simp]:
  "blocks_examined (map (GetBlock chain) bs) = bs"
  by (induction bs) simp_all




















lemma sample_to_checksum [simp]:
  "to_checksum_address (sample_env w3) a =
     (if is_hex_address a then Inr a else Inl ''Unknown format for address'')"
  by (simp add: sample_env_def)

lemma not_an_address [simp]: "\<not> is_hex_address ''0xNotAnAddress''"
  by (simp add: is_hex_address_def)

lemma offline_provider_simps [simp]: "\<not> is_connected offline_provider"
  by (simp add: offline_provider_def)


lemma sample_blocks_simps [simp]:
  "busy_blocks n = Inr \<lparr> transactions = [sample_tx] \<rparr>"
  "empty_blocks n = Inr \<lparr> transactions = [] \<rparr>"
  by (simp_all add: busy_blocks_def empty_blocks_def)






subsection \<open>Address validation and the connectivity probe\<close>

text \<open>
  Claim C1, as the source has it. The connectivity probe is sent before the address
  is looked at. For an address that fails validation, \<^verbatim>\<open>monitor_events\<close> on a
  supported chain sends the probe and nothing else, and returns the invalid-address
  error when the probe succeeds and the connection error when it fails; on an
  unsupported chain it sends nothing. \<^verbatim>\<open>track_transactions\<close> has no validation
  step: when the checksum conversion raises, it has sent the probe and nothing
  else, and returns the message of that exception (or the connection error).
\<close>
theorem invalid_address_after_probe:
  "(\<not> is_address env a \<longrightarrow>
      monitor_events env a chain event_name from_block =
        (case providers env chain of
           None \<Rightarrow> (JObj [(''error'', JStr (''Unsupported chain: '' @ chain))], [])
         | Some w3 \<Rightarrow>
             (JObj [(''error'',
                     JStr (if is_connected w3 then ''Invalid contract address: '' @ a
                           else ''Failed to connect to '' @ chain))],
              [IsConnected chain])))
   \<and> (to_checksum_address env a = Inl msg \<longrightarrow>
      track_transactions env a chain tx_count =
        (case providers env chain of
           None \<Rightarrow> (JObj [(''error'', JStr (''Connection failed to '' @ chain))], [])
         | Some w3 \<Rightarrow>
             (JObj [(''error'',
                     JStr (if is_connected w3 then msg
                           else ''Connection failed to '' @ chain))],
              [IsConnected chain])))"
  by (simp add: monitor_events_def monitor_events_try_def track_transactions_def
        track_transactions_try_def io_defs split: option.splits)

theorem invalid_address_after_probe_counterexample:
  "\<not> is_address (sample_env offline_provider) ''0xNotAnAddress''
   \<and> monitor_events (sample_env offline_provider) ''0xNotAnAddress'' ''polygon-zkevm''
        ''Transfer'' None
      = (JObj [(''error'', JStr ''Failed to connect to polygon-zkevm'')],
         [IsConnected ''polygon-zkevm''])
   \<and> monitor_events (sample_env (sample_provider [] empty_blocks)) ''0xNotAnAddress''
        ''polygon-zkevm'' ''Transfer'' None
      = (JObj [(''error'', JStr ''Invalid contract address: 0xNotAnAddress'')],
         [IsConnected ''polygon-zkevm''])"
  by (simp add: monitor_events_def monitor_events_try_def io_defs)

theorem invalid_address_after_probe_witness:
  "\<not> is_address (sample_env (sample_provider [] empty_blocks)) ''0xNotAnAddress''
   \<and> to_checksum_address (sample_env (sample_provider [] empty_blocks)) ''0xNotAnAddress''
       = Inl ''Unknown format for address''
   \<and> monitor_events (sample_env (sample_provider [] empty_blocks)) ''0xNotAnAddress''
        ''polygon-zkevm'' ''Transfer'' None
      = (JObj [(''error'', JStr ''Invalid contract address: 0xNotAnAddress'')],
         [IsConnected ''polygon-zkevm''])
   \<and> track_transactions (sample_env (sample_provider [] empty_blocks)) ''0xNotAnAddress''
        ''polygon-zkevm'' 10
      = (JObj [(''error'', JStr ''Unknown format for address'')],
         [IsConnected ''polygon-zkevm''])"
  using invalid_address_after_probe
    [of "sample_env (sample_provider [] empty_blocks)" "''0xNotAnAddress''"
        "''polygon-zkevm''" "''Transfer''" None "''Unknown format for address''" 10]
  by simp


section \<open>Market Aggregator: properties\<close>

lemma sample_session_simps [simp]:
  "http_get (sample_session st body) url params = Inr \<lparr> resp_status = st, resp_json = body \<rparr>"
  "http_post (sample_session st body) url payload = Inr \<lparr> resp_status = st, resp_json = body \<rparr>"
  by (simp_all add: sample_session_def)

lemma sample_aggregator_simps [simp]:
  "session (sample_aggregator st body) = Some (sample_session st body)"
  "cache (sample_aggregator st body) = (\<lambda>k. None)"
  by (simp_all add: sample_aggregator_def)

lemmas url_defs = DEFILLAMA_BASE_URL_def COINGECKO_BASE_URL_def ZKEVM_RPC_URL_def

subsection \<open>The cache\<close>

lemma timedelta_seconds_fresh:
  assumes "0 \<le> now - t" and "now - t < window * 1000000" and "window \<le> 86400"
  shows "timedelta_seconds now t < window"
proof -
  define d where "d = now - t"
  from assms have "d mod 86400000000 = d" by (simp add: d_def)
  moreover have "d = (d div 1000000) * 1000000 + d mod 1000000" by simp
  moreover have "0 \<le> d mod 1000000" by simp
  ultimately have "(d mod 86400000000) div 1000000 < window"
    using assms unfolding d_def [symmetric] by linarith
  then show ?thesis by (simp add: timedelta_seconds_def d_def)
qed

lemma timedelta_seconds_stale:
  assumes "window * 1000000 \<le> now - t" and "now - t < 86400000000" and "0 \<le> window"
  shows "\<not> timedelta_seconds now t < window"
proof -
  define d where "d = now - t"
  from assms have "d mod 86400000000 = d" by (simp add: d_def)
  moreover have "d = (d div 1000000) * 1000000 + d mod 1000000" by simp
  moreover have "d mod 1000000 < 1000000" by simp
  ultimately have "\<not> (d mod 86400000000) div 1000000 < window"
    using assms unfolding d_def [symmetric] by linarith
  then show ?thesis by (simp add: timedelta_seconds_def d_def)
qed

lemma fetch_tvl_hit:
  "cached self (''tvl_'' @ protocol) now_check 3600 = Some data
     \<Longrightarrow> fetch_tvl self protocol now_check now_store = ((data, self), [])"
  by (simp add: fetch_tvl_def fetch_tvl_try_def io_defs)

lemma get_token_price_hit:
  "cached self (''price_'' @ token_id) now_check 300 = Some data
     \<Longrightarrow> get_token_price self token_id now_check now_stamp now_store = ((data, self), [])"
  by (simp add: get_token_price_def get_token_price_try_def io_defs)

text \<open>
  Claim C3, evaluated at a second call made one day and five minutes after a
  successful first call: the first call sends one request and stores the payload;
  the later call, long after the hour has elapsed, is answered from the cache and
  sends no request, because the seconds component of the age is 300.
\<close>
theorem fetch_tvl_stale_entry_served:
  "fetch_tvl (sample_aggregator 200 (Inr (JObj [(''tvl'', JInt 1)]))) ''aave'' 0 0
     = ((JObj [(''tvl'', JInt 1)],
         (sample_aggregator 200 (Inr (JObj [(''tvl'', JInt 1)])))
           \<lparr> cache := (\<lambda>k. None) (''tvl_aave'' \<mapsto> (0, JObj [(''tvl'', JInt 1)])) \<rparr>),
        [HttpGet ''https://api.llama.fi/protocol/aave'' []])
   \<and> 3600 * 1000000 < (86700000000 :: int) - 0
   \<and> fetch_tvl
        ((sample_aggregator 200 (Inr (JObj [(''tvl'', JInt 1)])))
           \<lparr> cache := (\<lambda>k. None) (''tvl_aave'' \<mapsto> (0, JObj [(''tvl'', JInt 1)])) \<rparr>)
        ''aave'' 86700000000 86700000000
     = ((JObj [(''tvl'', JInt 1)],
         (sample_aggregator 200 (Inr (JObj [(''tvl'', JInt 1)])))
           \<lparr> cache := (\<lambda>k. None) (''tvl_aave'' \<mapsto> (0, JObj [(''tvl'', JInt 1)])) \<rparr>),
        [])"
  by (simp add: fetch_tvl_def fetch_tvl_try_def io_defs cached_def session_get_def url_defs
        timedelta_seconds_def)


subsection \<open>The RPC passthrough\<close>



lemma query_blockchain_answered:
  assumes "session self = Some s"
    and "http_post s (case rpc_urls chain of Some url \<Rightarrow> url | None \<Rightarrow> ZKEVM_RPC_URL)
           (rpc_payload method) = Inr response"
    and "resp_status response = 200"
    and "resp_json response = Inr (JObj d)"
  shows "query_blockchain self chain method =
     ((if method = ''eth_blockNumber'' then
         (case py_int16 (py_get d ''result'' (JStr ''0x0'')) of
            Inl e \<Rightarrow> JObj [(''error'', JStr e), (''chain'', JStr chain)]
          | Inr n \<Rightarrow>
              JObj
                [(''chain'', JStr chain),
                 (''method'', JStr method),
                 (''result'', py_get d ''result'' JNull),
                 (''block_number'', JInt n)])
       else
         JObj
           [(''chain'', JStr chain),
            (''method'', JStr method),
            (''result'', py_get d ''result'' JNull),
            (''block_number'', JNull)],
       self),
      [HttpPost (case rpc_urls chain of Some url \<Rightarrow> url | None \<Rightarrow> ZKEVM_RPC_URL)
         (rpc_payload method)])"
  using assms
  by (simp add: query_blockchain_def query_blockchain_try_def io_defs session_post_def
        as_dict_def Let_def split: sum.splits)




subsection \<open>Parsing a hex result\<close>

lemma hex_digit_cases:
  "hex_digit k \<in> set ''0123456789abcdef''"
proof -
  have "k mod 16 < length ''0123456789abcdef''" by simp
  then show ?thesis unfolding hex_digit_def by (rule nth_mem)
qed

lemma hex_char_facts:
  assumes "c \<in> set ''0123456789abcdef''"
  shows "c \<noteq> CHR ''_''" and "\<not> is_space c" and "hex_val c \<noteq> None"
    and "c \<noteq> CHR ''-''" and "c \<noteq> CHR ''+''"
  using assms by (auto simp: is_space_def hex_val_def)

lemma hex_val_hex_digit:
  assumes "k < 16"
  shows "hex_val (hex_digit k) = Some (int k)"
proof -
  from assms have "k = 0 \<or> k = 1 \<or> k = 2 \<or> k = 3 \<or> k = 4 \<or> k = 5 \<or> k = 6 \<or> k = 7
      \<or> k = 8 \<or> k = 9 \<or> k = 10 \<or> k = 11 \<or> k = 12 \<or> k = 13 \<or> k = 14 \<or> k = 15"
    by presburger
  then show ?thesis
    by (auto simp: hex_val_def hex_digit_def)
qed

lemma hex_of_nat_small: "n < 16 \<Longrightarrow> hex_of_nat n = [hex_digit n]"
  by (simp add: hex_of_nat.simps)

lemma hex_of_nat_big:
  "16 \<le> n \<Longrightarrow> hex_of_nat n = hex_of_nat (n div 16) @ [hex_digit (n mod 16)]"
  by (subst hex_of_nat.simps) simp

lemma hex_of_nat_chars: "set (hex_of_nat n) \<subseteq> set ''0123456789abcdef''"
proof (induction n rule: hex_of_nat.induct)
  case (1 n)
  show ?case
  proof (cases "n < 16")
    case True
    then show ?thesis using hex_digit_cases [of n] by (simp add: hex_of_nat_small)
  next
    case False
    then show ?thesis
      using 1 hex_digit_cases [of "n mod 16"] by (simp add: hex_of_nat_big)
  qed
qed

lemma hex_of_nat_not_empty: "hex_of_nat n \<noteq> []"
  by (cases "n < 16") (simp_all add: hex_of_nat_small hex_of_nat_big)

lemma hex_digits_val_digits:
  "set ds \<subseteq> set ''0123456789abcdef''
     \<Longrightarrow> hex_digits_val True acc ds = Some (foldl (\<lambda>a c. 16 * a + the (hex_val c)) acc ds)"
proof (induction ds arbitrary: acc)
  case Nil
  then show ?case by simp
next
  case (Cons c ds)
  then have c: "c \<in> set ''0123456789abcdef''" by simp
  from hex_char_facts(3) [OF c] obtain d where d: "hex_val c = Some d" by auto
  from Cons have "hex_digits_val True (16 * acc + d) ds
      = Some (foldl (\<lambda>a c. 16 * a + the (hex_val c)) (16 * acc + d) ds)"
    by simp
  with d hex_char_facts(1) [OF c] show ?case by simp
qed

lemma hex_digits_val_start:
  assumes "set ds \<subseteq> set ''0123456789abcdef''" and "ds \<noteq> []"
  shows "hex_digits_val False acc ds = hex_digits_val True acc ds"
proof -
  from assms obtain c cs where ds: "ds = c # cs" by (cases ds) auto
  with assms have c: "c \<in> set ''0123456789abcdef''" by simp
  show ?thesis
    using hex_char_facts(1) [OF c] by (simp add: ds)
qed

lemma foldl_hex_of_nat:
  "foldl (\<lambda>a c. 16 * a + the (hex_val c)) 0 (hex_of_nat n) = int n"
proof (induction n rule: hex_of_nat.induct)
  case (1 n)
  show ?case
  proof (cases "n < 16")
    case True
    then show ?thesis by (simp add: hex_of_nat_small hex_val_hex_digit)
  next
    case False
    then have "foldl (\<lambda>a c. 16 * a + the (hex_val c)) 0 (hex_of_nat (n div 16)) = int (n div 16)"
      using 1 by simp
    with False show ?thesis
      by (simp add: hex_of_nat_big hex_val_hex_digit zdiv_int zmod_int)
  qed
qed

lemma strip_hex:
  assumes "set ds \<subseteq> set ''0123456789abcdef''" and "ds \<noteq> []"
  shows "strip (''0x'' @ ds) = ''0x'' @ ds"
proof -
  have "last ds \<in> set ''0123456789abcdef''"
    using assms by (meson last_in_set subsetD)
  then have "\<not> is_space (last ds)" by (rule hex_char_facts(2))
  then have "\<not> is_space (hd (rev ds @ ''x0''))"
    using assms(2) by (simp add: hd_append hd_rev)
  then have "dropWhile is_space (rev ds @ ''x0'') = rev ds @ ''x0''"
    by (simp add: dropWhile_eq_self_iff)
  then show ?thesis
    by (simp add: strip_def is_space_def)
qed

lemma parse_hex_hex_of_nat: "parse_hex (''0x'' @ hex_of_nat k) = Some (int k)"
proof -
  let ?ds = "hex_of_nat k"
  have chars: "set ?ds \<subseteq> set ''0123456789abcdef''" by (rule hex_of_nat_chars)
  have ne: "?ds \<noteq> []" by (rule hex_of_nat_not_empty)
  from ne obtain c cs where ds: "?ds = c # cs" by (cases ?ds) auto
  with chars have c: "c \<in> set ''0123456789abcdef''" by simp
  have dv: "hex_digits_val False 0 ?ds = Some (int k)"
    using hex_digits_val_start [OF chars ne, of 0] hex_digits_val_digits [OF chars, of 0]
    by (simp add: foldl_hex_of_nat)
  have t: "strip (''0x'' @ ?ds) = ''0x'' @ ?ds"
    by (rule strip_hex [OF chars ne])
  have f: "take 1 ?ds \<noteq> ''_''"
    using hex_char_facts(1) [OF c] by (simp add: ds)
  show ?thesis
    unfolding parse_hex_def t using f by (simp add: Let_def dv)
qed

lemma parse_hex_example: "parse_hex ''0x10'' = Some 16"
  by (simp add: parse_hex_def strip_def is_space_def hex_val_def)

text \<open>
  Claim C8. With method \<^verbatim>\<open>eth_blockNumber\<close>, a status-200 response whose result
  is a hex string is returned with \<^verbatim>\<open>block_number\<close> equal to the parsed integer:
  the hex digits of \<open>k\<close> after \<^verbatim>\<open>0x\<close> parse to \<open>k\<close>, and \<^verbatim>\<open>0x10\<close> to 16. For
  every other method the \<^verbatim>\<open>block_number\<close> field of a result is null.
\<close>
theorem query_blockchain_block_number:
  "(\<forall>s response d h n.
       session self = Some s
       \<and> http_post s (case rpc_urls chain of Some url \<Rightarrow> url | None \<Rightarrow> ZKEVM_RPC_URL)
           (rpc_payload ''eth_blockNumber'') = Inr response
       \<and> resp_status response = 200 \<and> resp_json response = Inr (JObj d)
       \<and> map_of d ''result'' = Some (JStr h) \<and> parse_hex h = Some n
     \<longrightarrow> obj_get (fst (fst (query_blockchain self chain ''eth_blockNumber''))) ''block_number''
           = Some (JInt n)
         \<and> obj_get (fst (fst (query_blockchain self chain ''eth_blockNumber''))) ''result''
           = Some (JStr h))
   \<and> parse_hex (''0x'' @ hex_of_nat k) = Some (int k)
   \<and> parse_hex ''0x10'' = Some 16
   \<and> (\<forall>s response d.
       method \<noteq> ''eth_blockNumber''
       \<and> session self = Some s
       \<and> http_post s (case rpc_urls chain of Some url \<Rightarrow> url | None \<Rightarrow> ZKEVM_RPC_URL)
           (rpc_payload method) = Inr response
       \<and> resp_status response = 200 \<and> resp_json response = Inr (JObj d)
     \<longrightarrow> obj_get (fst (fst (query_blockchain self chain method))) ''block_number''
           = Some JNull)
   \<and> (\<forall>v. method \<noteq> ''eth_blockNumber''
         \<and> obj_get (fst (fst (query_blockchain self chain method))) ''block_number'' = Some v
       \<longrightarrow> v = JNull)"
proof (intro conjI allI impI)
  fix s response d h n
  assume a: "session self = Some s
       \<and> http_post s (case rpc_urls chain of Some url \<Rightarrow> url | None \<Rightarrow> ZKEVM_RPC_URL)
           (rpc_payload ''eth_blockNumber'') = Inr response
       \<and> resp_status response = 200 \<and> resp_json response = Inr (JObj d)
       \<and> map_of d ''result'' = Some (JStr h) \<and> parse_hex h = Some n"
  then have run: "fst (fst (query_blockchain self chain ''eth_blockNumber''))
      = JObj
          [(''chain'', JStr chain),
           (''method'', JStr ''eth_blockNumber''),
           (''result'', JStr h),
           (''block_number'', JInt n)]"
    using query_blockchain_answered [of self s chain "''eth_blockNumber''" response d]
    by (simp add: py_get_def py_int16_def)
  show "obj_get (fst (fst (query_blockchain self chain ''eth_blockNumber''))) ''block_number''
          = Some (JInt n)"
    by (simp add: run obj_get_def)
  show "obj_get (fst (fst (query_blockchain self chain ''eth_blockNumber''))) ''result''
          = Some (JStr h)"
    by (simp add: run obj_get_def)
next
  show "parse_hex (''0x'' @ hex_of_nat k) = Some (int k)" by (rule parse_hex_hex_of_nat)
next
  show "parse_hex ''0x10'' = Some 16" by (rule parse_hex_example)
next
  fix s response d
  assume "method \<noteq> ''eth_blockNumber''
       \<and> session self = Some s
       \<and> http_post s (case rpc_urls chain of Some url \<Rightarrow> url | None \<Rightarrow> ZKEVM_RPC_URL)
           (rpc_payload method) = Inr response
       \<and> resp_status response = 200 \<and> resp_json response = Inr (JObj d)"
  then show "obj_get (fst (fst (query_blockchain self chain method))) ''block_number''
          = Some JNull"
    using query_blockchain_answered [of self s chain "method" response d]
    by (simp add: obj_get_def)
next
  fix v
  assume "method \<noteq> ''eth_blockNumber''
         \<and> obj_get (fst (fst (query_blockchain self chain method))) ''block_number'' = Some v"
  then show "v = JNull"
    by (auto simp: query_blockchain_def query_blockchain_try_def io_defs session_post_def
          as_dict_def Let_def obj_get_def
          split: option.splits sum.splits json.splits if_splits)
qed

theorem query_blockchain_block_number_witness:
  "obj_get (fst (fst (query_blockchain
        (sample_aggregator 200 (Inr (JObj [(''result'', JStr ''0x10'')])))
        ''scroll'' ''eth_blockNumber''))) ''block_number'' = Some (JInt 16)
   \<and> obj_get (fst (fst (query_blockchain
        (sample_aggregator 200 (Inr (JObj [(''result'', JStr ''0x10'')])))
        ''scroll'' ''eth_gasPrice''))) ''block_number'' = Some JNull"
proof -
  let ?agg = "sample_aggregator 200 (Inr (JObj [(''result'', JStr ''0x10'')]))"
  let ?resp = "\<lparr> resp_status = 200, resp_json = Inr (JObj [(''result'', JStr ''0x10'')]) \<rparr>"
  note t = query_blockchain_block_number [of ?agg "''scroll''" 0 "''eth_gasPrice''"]
  have h1: "session ?agg = Some (sample_session 200 (Inr (JObj [(''result'', JStr ''0x10'')])))
       \<and> http_post (sample_session 200 (Inr (JObj [(''result'', JStr ''0x10'')])))
           (case rpc_urls ''scroll'' of Some url \<Rightarrow> url | None \<Rightarrow> ZKEVM_RPC_URL)
           (rpc_payload ''eth_blockNumber'') = Inr ?resp
       \<and> resp_status ?resp = 200 \<and> resp_json ?resp = Inr (JObj [(''result'', JStr ''0x10'')])
       \<and> map_of [(''result'', JStr ''0x10'')] ''result'' = Some (JStr ''0x10'')
       \<and> parse_hex ''0x10'' = Some 16"
    by (simp add: parse_hex_example)
  have h2: "''eth_gasPrice'' \<noteq> ''eth_blockNumber''
       \<and> session ?agg = Some (sample_session 200 (Inr (JObj [(''result'', JStr ''0x10'')])))
       \<and> http_post (sample_session 200 (Inr (JObj [(''result'', JStr ''0x10'')])))
           (case rpc_urls ''scroll'' of Some url \<Rightarrow> url | None \<Rightarrow> ZKEVM_RPC_URL)
           (rpc_payload ''eth_gasPrice'') = Inr ?resp
       \<and> resp_status ?resp = 200 \<and> resp_json ?resp = Inr (JObj [(''result'', JStr ''0x10'')])"
    by simp
  from t h1 have "obj_get (fst (fst (query_blockchain ?agg ''scroll'' ''eth_blockNumber'')))
      ''block_number'' = Some (JInt 16)"
    by blast
  moreover from t h2 have "obj_get (fst (fst (query_blockchain ?agg ''scroll'' ''eth_gasPrice'')))
      ''block_number'' = Some JNull"
    by blast
  ultimately show ?thesis by simp
qed


subsection \<open>What the cache holds\<close>

lemma fetch_tvl_cases:
  "fetch_tvl self protocol now_check now_store =
     (case cached self (''tvl_'' @ protocol) now_check 3600 of
        Some data \<Rightarrow> ((data, self), [])
      | None \<Rightarrow>
          (case session self of
             None \<Rightarrow>
               ((JObj [(''error'', JStr (attribute_error JNull ''get'')),
                       (''protocol'', JStr protocol)], self), [])
           | Some s \<Rightarrow>
               (case http_get s (tvl_url protocol) [] of
                  Inl e \<Rightarrow> (JObj [(''error'', JStr e), (''protocol'', JStr protocol)], self)
                | Inr response \<Rightarrow>
                    if resp_status response = 200 then
                      (case resp_json response of
                         Inl e \<Rightarrow>
                           (JObj [(''error'', JStr e), (''protocol'', JStr protocol)], self)
                       | Inr data \<Rightarrow>
                           (data,
                            self \<lparr> cache :=
                              (cache self) (''tvl_'' @ protocol \<mapsto> (now_store, data)) \<rparr>))
                    else
                      (JObj
                         [(''error'', JStr (''HTTP '' @ str_int (resp_status response))),
                          (''protocol'', JStr protocol)],
                       self),
                [HttpGet (tvl_url protocol) []])))"
  by (simp add: fetch_tvl_def fetch_tvl_try_def io_defs session_get_def tvl_url_def Let_def
        split: option.splits sum.splits)


lemma get_token_price_cases:
  "get_token_price self token_id now_check now_stamp now_store =
     (case cached self (''price_'' @ token_id) now_check 300 of
        Some data \<Rightarrow> ((data, self), [])
      | None \<Rightarrow>
          (case session self of
             None \<Rightarrow> ((JObj [(''error'', JStr (attribute_error JNull ''get''))], self), [])
           | Some s \<Rightarrow>
               (case http_get s (COINGECKO_BASE_URL @ ''/simple/price'') (price_params token_id) of
                  Inl e \<Rightarrow> (JObj [(''error'', JStr e)], self)
                | Inr response \<Rightarrow>
                    if resp_status response = 200 then
                      (case resp_json response of
                         Inl e \<Rightarrow> (JObj [(''error'', JStr e)], self)
                       | Inr data \<Rightarrow>
                           (case as_dict data of
                              Inl e \<Rightarrow> (JObj [(''error'', JStr e)], self)
                            | Inr d \<Rightarrow>
                                (case as_dict (py_get d token_id (JObj [])) of
                                   Inl e \<Rightarrow> (JObj [(''error'', JStr e)], self)
                                 | Inr entry \<Rightarrow>
                                     (price_result token_id entry now_stamp,
                                      self \<lparr> cache :=
                                        (cache self)
                                          (''price_'' @ token_id \<mapsto>
                                             (now_store,
                                              price_result token_id entry now_stamp)) \<rparr>))))
                    else
                      (JObj
                         [(''error'',
                           JStr (''CoinGecko API error: '' @ str_int (resp_status response)))],
                       self),
                [HttpGet (COINGECKO_BASE_URL @ ''/simple/price'') (price_params token_id)])))"
  by (simp add: get_token_price_def get_token_price_try_def io_defs session_get_def Let_def
        price_params_def price_result_def split: option.splits sum.splits)

lemma has_error_simps [simp]:
  "has_error (JObj ((''error'', JStr e) # kvs))"
  "\<not> has_error (price_result token_id entry now_stamp)"
  by (simp_all add: has_error_def obj_get_def price_result_def)

text \<open>
  Claim C10, as the source has it. \<^verbatim>\<open>fetch_tvl\<close> and \<^verbatim>\<open>get_token_price\<close>
  leave the aggregator as it was, or store under their own key the pair of the store
  time and the returned result, and they store only after a status-200 response
  whose body parsed. An invocation that misses the cache and gets no such response
  returns an error object and leaves the cache unchanged. A result of
  \<^verbatim>\<open>get_token_price\<close> that carries an error never comes with a changed cache; a
  result of \<^verbatim>\<open>fetch_tvl\<close> that is stored is the upstream body as it came.
\<close>
theorem cache_written_on_status_200:
  "(snd (fst (fetch_tvl self protocol now_check now_store)) = self
    \<or> (snd (fst (fetch_tvl self protocol now_check now_store))
          = self \<lparr> cache := (cache self)
              (''tvl_'' @ protocol \<mapsto>
                 (now_store, fst (fst (fetch_tvl self protocol now_check now_store)))) \<rparr>
        \<and> (\<exists>s response.
              session self = Some s
              \<and> http_get s (tvl_url protocol) [] = Inr response
              \<and> resp_status response = 200
              \<and> resp_json response
                  = Inr (fst (fst (fetch_tvl self protocol now_check now_store))))))
   \<and> (cached self (''tvl_'' @ protocol) now_check 3600 = None
        \<and> (\<forall>s response d.
              session self = Some s \<and> http_get s (tvl_url protocol) [] = Inr response
              \<and> resp_json response = Inr d
            \<longrightarrow> resp_status response \<noteq> 200)
      \<longrightarrow> has_error (fst (fst (fetch_tvl self protocol now_check now_store)))
          \<and> snd (fst (fetch_tvl self protocol now_check now_store)) = self)
   \<and> (snd (fst (get_token_price self token_id now_check now_stamp now_store)) = self
      \<or> (snd (fst (get_token_price self token_id now_check now_stamp now_store))
            = self \<lparr> cache := (cache self)
                (''price_'' @ token_id \<mapsto>
                   (now_store,
                    fst (fst (get_token_price self token_id now_check now_stamp now_store)))) \<rparr>
          \<and> \<not> has_error
                (fst (fst (get_token_price self token_id now_check now_stamp now_store)))
          \<and> (\<exists>s response d.
                session self = Some s
                \<and> http_get s (COINGECKO_BASE_URL @ ''/simple/price'') (price_params token_id)
                    = Inr response
                \<and> resp_status response = 200
                \<and> resp_json response = Inr d)))
   \<and> (has_error (fst (fst (get_token_price self token_id now_check now_stamp now_store)))
      \<longrightarrow> snd (fst (get_token_price self token_id now_check now_stamp now_store)) = self)
   \<and> (cached self (''price_'' @ token_id) now_check 300 = None
        \<and> (\<forall>s response d.
              session self = Some s
              \<and> http_get s (COINGECKO_BASE_URL @ ''/simple/price'') (price_params token_id)
                  = Inr response
              \<and> resp_json response = Inr d
            \<longrightarrow> resp_status response \<noteq> 200)
      \<longrightarrow> has_error (fst (fst (get_token_price self token_id now_check now_stamp now_store))))"
proof (intro conjI)
  show "snd (fst (fetch_tvl self protocol now_check now_store)) = self
    \<or> (snd (fst (fetch_tvl self protocol now_check now_store))
          = self \<lparr> cache := (cache self)
              (''tvl_'' @ protocol \<mapsto>
                 (now_store, fst (fst (fetch_tvl self protocol now_check now_store)))) \<rparr>
        \<and> (\<exists>s response.
              session self = Some s
              \<and> http_get s (tvl_url protocol) [] = Inr response
              \<and> resp_status response = 200
              \<and> resp_json response
                  = Inr (fst (fst (fetch_tvl self protocol now_check now_store)))))"
    by (simp add: fetch_tvl_cases split: option.splits sum.splits)
next
  show "cached self (''tvl_'' @ protocol) now_check 3600 = None
        \<and> (\<forall>s response d.
              session self = Some s \<and> http_get s (tvl_url protocol) [] = Inr response
              \<and> resp_json response = Inr d
            \<longrightarrow> resp_status response \<noteq> 200)
      \<longrightarrow> has_error (fst (fst (fetch_tvl self protocol now_check now_store)))
          \<and> snd (fst (fetch_tvl self protocol now_check now_store)) = self"
    by (auto simp: fetch_tvl_cases split: option.splits sum.splits)
next
  show "snd (fst (get_token_price self token_id now_check now_stamp now_store)) = self
      \<or> (snd (fst (get_token_price self token_id now_check now_stamp now_store))
            = self \<lparr> cache := (cache self)
                (''price_'' @ token_id \<mapsto>
                   (now_store,
                    fst (fst (get_token_price self token_id now_check now_stamp now_store)))) \<rparr>
          \<and> \<not> has_error
                (fst (fst (get_token_price self token_id now_check now_stamp now_store)))
          \<and> (\<exists>s response d.
                session self = Some s
                \<and> http_get s (COINGECKO_BASE_URL @ ''/simple/price'') (price_params token_id)
                    = Inr response
                \<and> resp_status response = 200
                \<and> resp_json response = Inr d))"
    by (simp add: get_token_price_cases split: option.splits sum.splits)
next
  show "has_error (fst (fst (get_token_price self token_id now_check now_stamp now_store)))
      \<longrightarrow> snd (fst (get_token_price self token_id now_check now_stamp now_store)) = self"
    by (simp add: get_token_price_cases split: option.splits sum.splits)
next
  show "cached self (''price_'' @ token_id) now_check 300 = None
        \<and> (\<forall>s response d.
              session self = Some s
              \<and> http_get s (COINGECKO_BASE_URL @ ''/simple/price'') (price_params token_id)
                  = Inr response
              \<and> resp_json response = Inr d
            \<longrightarrow> resp_status response \<noteq> 200)
      \<longrightarrow> has_error (fst (fst (get_token_price self token_id now_check now_stamp now_store)))"
    by (auto simp: get_token_price_cases split: option.splits sum.splits)
qed

theorem cache_written_on_status_200_counterexample:
  "has_error (fst (fst (fetch_tvl
        (sample_aggregator 200 (Inr (JObj [(''error'', JStr ''rate limited'')])))
        ''aave'' 0 0)))
   \<and> cache (sample_aggregator 200 (Inr (JObj [(''error'', JStr ''rate limited'')])))
        ''tvl_aave'' = None
   \<and> cache (snd (fst (fetch_tvl
        (sample_aggregator 200 (Inr (JObj [(''error'', JStr ''rate limited'')])))
        ''aave'' 0 0))) ''tvl_aave''
      = Some (0, JObj [(''error'', JStr ''rate limited'')])"
  by (simp add: fetch_tvl_cases cached_def)

theorem cache_written_on_status_200_witness:
  "fetch_tvl (sample_aggregator 500 (Inr JNull)) ''aave'' 0 0
     = ((JObj [(''error'', JStr ''HTTP 500''), (''protocol'', JStr ''aave'')],
         sample_aggregator 500 (Inr JNull)),
        [HttpGet ''https://api.llama.fi/protocol/aave'' []])
   \<and> has_error (fst (fst (fetch_tvl (sample_aggregator 500 (Inr JNull)) ''aave'' 0 0)))
   \<and> has_error (fst (fst (get_token_price (sample_aggregator 500 (Inr JNull))
         ''ethereum'' 0 ''2024-01-01T00:00:00'' 0)))
   \<and> snd (fst (get_token_price (sample_aggregator 500 (Inr JNull))
         ''ethereum'' 0 ''2024-01-01T00:00:00'' 0)) = sample_aggregator 500 (Inr JNull)"
proof -
  let ?agg = "sample_aggregator 500 (Inr JNull)"
  note t = cache_written_on_status_200
    [of ?agg "''aave''" 0 0 "''ethereum''" "''2024-01-01T00:00:00''"]
  have miss: "cached ?agg (''tvl_'' @ ''aave'') 0 3600 = None"
    "cached ?agg (''price_'' @ ''ethereum'') 0 300 = None"
    by (simp_all add: cached_def)
  have no200: "\<forall>s response d.
      session ?agg = Some s \<and> http_get s (tvl_url ''aave'') [] = Inr response
      \<and> resp_json response = Inr d \<longrightarrow> resp_status response \<noteq> 200"
    "\<forall>s response d.
      session ?agg = Some s
      \<and> http_get s (COINGECKO_BASE_URL @ ''/simple/price'') (price_params ''ethereum'')
          = Inr response
      \<and> resp_json response = Inr d \<longrightarrow> resp_status response \<noteq> 200"
    by auto
  from t miss(1) no200(1)
  have e1: "has_error (fst (fst (fetch_tvl ?agg ''aave'' 0 0)))" by blast
  from t miss(2) no200(2)
  have e2: "has_error (fst (fst (get_token_price ?agg ''ethereum'' 0
      ''2024-01-01T00:00:00'' 0)))" by blast
  from t e2 have u: "snd (fst (get_token_price ?agg ''ethereum'' 0
      ''2024-01-01T00:00:00'' 0)) = ?agg" by blast
  have run: "fetch_tvl ?agg ''aave'' 0 0
     = ((JObj [(''error'', JStr ''HTTP 500''), (''protocol'', JStr ''aave'')], ?agg),
        [HttpGet ''https://api.llama.fi/protocol/aave'' []])"
    by (simp add: fetch_tvl_cases cached_def tvl_url_def url_defs str_int_def str_nat_small
          str_nat_big)
  from run e1 e2 u show ?thesis by simp
qed


subsection \<open>Results and exceptions\<close>

lemma io_bind_Inr_D:
  "fst (io_bind m f) = Inr v \<Longrightarrow> \<exists>x. fst m = Inr x \<and> fst (f x) = Inr v"
  by (auto simp: io_bind_def split: prod.splits sum.splits)

lemma io_fst_simps [simp]:
  "fst (io_return x) = Inr x"
  "fst (io_call c outcome) = outcome"
  "fst (io_lift outcome) = outcome"
  by (simp_all add: io_defs)

lemma try_except_Inl: "fst m = Inl e \<Longrightarrow> fst (try_except m h) = h e"
  by (cases m) (simp add: try_except_def)

lemma try_except_Inr: "fst m = Inr v \<Longrightarrow> fst (try_except m h) = v"
  by (cases m) (simp add: try_except_def)

lemma try_except_shape:
  assumes "\<And>e. P (h e)" and "\<And>v. fst m = Inr v \<Longrightarrow> P v"
  shows "P (fst (try_except m h))"
proof (cases "fst m")
  case (Inl e)
  then show ?thesis using assms(1) by (simp add: try_except_Inl)
next
  case (Inr v)
  then show ?thesis using assms(2) by (simp add: try_except_Inr)
qed

lemma result_shape_error [simp]: "result_shape key (JObj ((''error'', JStr e) # kvs))"
  by (simp add: result_shape_def is_obj_def has_error_def obj_get_def)

lemma result_shape_is_obj: "result_shape key r \<Longrightarrow> is_obj r"
  by (simp add: result_shape_def)

lemma monitor_events_shape:
  "result_shape ''events'' (fst (monitor_events env a chain event_name from_block))"
  unfolding monitor_events_def
proof (rule try_except_shape)
  fix v
  assume "fst (monitor_events_try env a chain event_name from_block) = Inr v"
  then show "result_shape ''events'' v"
    by (auto simp: monitor_events_try_def Let_def result_shape_def is_obj_def obj_get_def
          split: option.splits if_splits dest!: io_bind_Inr_D)
qed simp

lemma check_vulnerabilities_shape:
  "result_shape ''vulnerabilities'' (fst (check_vulnerabilities env a chain))"
  unfolding check_vulnerabilities_def
proof (rule try_except_shape)
  fix v
  assume "fst (check_vulnerabilities_try env a chain) = Inr v"
  then show "result_shape ''vulnerabilities'' v"
    by (auto simp: check_vulnerabilities_try_def scan_bytecode_def Let_def result_shape_def
          is_obj_def obj_get_def split: option.splits if_splits dest!: io_bind_Inr_D)
qed simp

lemma track_transactions_shape:
  "result_shape ''recent_transactions'' (fst (track_transactions env a chain tx_count))"
  unfolding track_transactions_def
proof (rule try_except_shape)
  fix v
  assume "fst (track_transactions_try env a chain tx_count) = Inr v"
  then show "result_shape ''recent_transactions'' v"
    by (auto simp: track_transactions_try_def Let_def result_shape_def is_obj_def obj_get_def
          split: option.splits if_splits dest!: io_bind_Inr_D)
qed simp

lemma get_protocol_data_shape:
  "result_shape ''name'' (fst (fst (get_protocol_data self protocol_name)))"
  unfolding get_protocol_data_def
proof (rule try_except_shape [where P = "\<lambda>r. result_shape ''name'' (fst r)"])
  fix v
  assume "fst (get_protocol_data_try self protocol_name) = Inr v"
  then show "result_shape ''name'' (fst v)"
    by (auto simp: get_protocol_data_try_def Let_def result_shape_def is_obj_def obj_get_def
          split: option.splits if_splits dest!: io_bind_Inr_D)
qed simp

lemma query_blockchain_shape:
  "result_shape ''result'' (fst (fst (query_blockchain self chain rpc_method)))"
  unfolding query_blockchain_def
proof (rule try_except_shape [where P = "\<lambda>r. result_shape ''result'' (fst r)"])
  fix v
  assume "fst (query_blockchain_try self chain rpc_method) = Inr v"
  then show "result_shape ''result'' (fst v)"
    by (auto simp: query_blockchain_try_def Let_def result_shape_def is_obj_def obj_get_def
          split: option.splits if_splits dest!: io_bind_Inr_D)
qed simp

lemma cached_Some:
  "cached self k now window = Some data \<Longrightarrow> \<exists>t. cache self k = Some (t, data)"
  by (auto simp: cached_def split: option.splits if_splits)

lemma is_obj_price_result [simp]: "is_obj (price_result token_id entry now_stamp)"
  by (simp add: price_result_def is_obj_def)

lemma is_obj_error [simp]: "is_obj (JObj kvs)"
  by (simp add: is_obj_def)

lemma get_token_price_objects:
  assumes "price_entries_are_objects self"
  shows "is_obj (fst (fst (get_token_price self token_id now_check now_stamp now_store)))"
    and "price_entries_are_objects
           (snd (fst (get_token_price self token_id now_check now_stamp now_store)))"
proof -
  show "is_obj (fst (fst (get_token_price self token_id now_check now_stamp now_store)))"
    using assms
    by (auto simp: get_token_price_cases price_entries_are_objects_def
          split: option.splits sum.splits dest!: cached_Some)
  show "price_entries_are_objects
          (snd (fst (get_token_price self token_id now_check now_stamp now_store)))"
    using assms
    by (auto simp: get_token_price_cases price_entries_are_objects_def
          split: option.splits sum.splits if_splits)
qed

lemma fetch_tvl_keeps_prices:
  assumes "price_entries_are_objects self"
  shows "price_entries_are_objects (snd (fst (fetch_tvl self protocol now_check now_store)))"
  using assms
  by (auto simp: fetch_tvl_cases price_entries_are_objects_def
        split: option.splits sum.splits if_splits)

lemma fetch_tvl_result:
  "has_error (fst (fst (fetch_tvl self protocol now_check now_store)))
   \<or> (\<exists>t. cache (snd (fst (fetch_tvl self protocol now_check now_store))) (''tvl_'' @ protocol)
          = Some (t, fst (fst (fetch_tvl self protocol now_check now_store))))"
  by (auto simp: fetch_tvl_cases split: option.splits sum.splits dest!: cached_Some)


lemma aggregator_unchanged:
  "snd (fst (get_protocol_data self protocol_name)) = self"
  "snd (fst (query_blockchain self chain rpc_method)) = self"
proof -
  have "snd (fst (try_except m h)) = self"
    if "\<And>e. snd (h e) = self" and "\<And>v. fst m = Inr v \<Longrightarrow> snd v = self"
    for m :: "(http_call, json \<times> aggregator) io" and h
    using that try_except_shape [where P = "\<lambda>r. snd r = self" and h = h and m = m] by blast
  note keep = this
  show "snd (fst (get_protocol_data self protocol_name)) = self"
    unfolding get_protocol_data_def
    by (rule keep)
      (auto simp: get_protocol_data_try_def Let_def split: if_splits dest!: io_bind_Inr_D)
  show "snd (fst (query_blockchain self chain rpc_method)) = self"
    unfolding query_blockchain_def
    by (rule keep)
      (auto simp: query_blockchain_try_def Let_def split: if_splits dest!: io_bind_Inr_D)
qed

text \<open>
  Claim C4, as the source has it. Every operation returns a value and never
  raises: an exception raised by any step of a \<^verbatim>\<open>try\<close> body is returned as an
  object whose \<^verbatim>\<open>error\<close> field is its message. The three monitor operations,
  \<^verbatim>\<open>get_protocol_data\<close> and \<^verbatim>\<open>query_blockchain\<close> return an object that
  carries an error string or the field of their success result;
  \<^verbatim>\<open>get_token_price\<close> returns an object as long as the cached prices are
  objects, which holds initially and is kept by every operation.
  \<^verbatim>\<open>fetch_tvl\<close> returns an error object or the upstream payload as it is cached.
\<close>
theorem operations_return_results:
  "result_shape ''events'' (fst (monitor_events env a chain event_name from_block))
   \<and> result_shape ''vulnerabilities'' (fst (check_vulnerabilities env a chain))
   \<and> result_shape ''recent_transactions'' (fst (track_transactions env a chain tx_count))
   \<and> result_shape ''name'' (fst (fst (get_protocol_data self protocol)))
   \<and> result_shape ''result'' (fst (fst (query_blockchain self chain rpc_method)))
   \<and> (has_error (fst (fst (fetch_tvl self protocol now_check now_store)))
      \<or> (\<exists>t. cache (snd (fst (fetch_tvl self protocol now_check now_store)))
                (''tvl_'' @ protocol)
              = Some (t, fst (fst (fetch_tvl self protocol now_check now_store)))))
   \<and> price_entries_are_objects (self \<lparr> cache := (\<lambda>k. None) \<rparr>)
   \<and> (price_entries_are_objects self \<longrightarrow>
        is_obj (fst (fst (get_token_price self token_id now_check now_stamp now_store)))
        \<and> price_entries_are_objects
            (snd (fst (get_token_price self token_id now_check now_stamp now_store)))
        \<and> price_entries_are_objects
            (snd (fst (fetch_tvl self protocol now_check now_store)))
        \<and> price_entries_are_objects (snd (fst (get_protocol_data self protocol)))
        \<and> price_entries_are_objects (snd (fst (query_blockchain self chain rpc_method))))
   \<and> (\<forall>e. fst (monitor_events_try env a chain event_name from_block) = Inl e
        \<longrightarrow> fst (monitor_events env a chain event_name from_block)
            = JObj [(''error'', JStr e), (''chain'', JStr chain)])
   \<and> (\<forall>e. fst (check_vulnerabilities_try env a chain) = Inl e
        \<longrightarrow> fst (check_vulnerabilities env a chain) = JObj [(''error'', JStr e)])
   \<and> (\<forall>e. fst (track_transactions_try env a chain tx_count) = Inl e
        \<longrightarrow> fst (track_transactions env a chain tx_count) = JObj [(''error'', JStr e)])
   \<and> (\<forall>e. fst (fetch_tvl_try self protocol now_check now_store) = Inl e
        \<longrightarrow> fst (fetch_tvl self protocol now_check now_store)
            = (JObj [(''error'', JStr e), (''protocol'', JStr protocol)], self))
   \<and> (\<forall>e. fst (get_protocol_data_try self protocol) = Inl e
        \<longrightarrow> fst (get_protocol_data self protocol) = (JObj [(''error'', JStr e)], self))
   \<and> (\<forall>e. fst (query_blockchain_try self chain rpc_method) = Inl e
        \<longrightarrow> fst (query_blockchain self chain rpc_method)
            = (JObj [(''error'', JStr e), (''chain'', JStr chain)], self))
   \<and> (\<forall>e. fst (get_token_price_try self token_id now_check now_stamp now_store) = Inl e
        \<longrightarrow> fst (get_token_price self token_id now_check now_stamp now_store)
            = (JObj [(''error'', JStr e)], self))"
  apply (intro conjI allI impI)
  apply (simp_all add: monitor_events_shape check_vulnerabilities_shape
           track_transactions_shape get_protocol_data_shape query_blockchain_shape
           fetch_tvl_result [simplified] get_token_price_objects fetch_tvl_keeps_prices
           aggregator_unchanged)
  apply (simp_all add: price_entries_are_objects_def monitor_events_def
           check_vulnerabilities_def track_transactions_def fetch_tvl_def
           get_protocol_data_def query_blockchain_def get_token_price_def try_except_Inl)
  done

theorem operations_return_results_counterexample:
  "fst (fst (fetch_tvl (sample_aggregator 200 (Inr (JArr []))) ''all'' 0 0)) = JArr []
   \<and> \<not> is_obj (JArr [])"
  by (simp add: fetch_tvl_cases cached_def is_obj_def)

theorem operations_return_results_witness:
  "price_entries_are_objects detached_aggregator
   \<and> is_obj (fst (fst (get_token_price detached_aggregator ''ethereum'' 0
        ''2024-01-01T00:00:00'' 0)))
   \<and> fst (get_protocol_data_try detached_aggregator ''aave'')
       = Inl (attribute_error JNull ''get'')
   \<and> fst (get_protocol_data detached_aggregator ''aave'')
       = (JObj [(''error'', JStr (attribute_error JNull ''get''))], detached_aggregator)"
proof -
  note t = operations_return_results
    [of _ _ _ _ _ _ detached_aggregator "''aave''" _ 0 0 "''ethereum''"
        "''2024-01-01T00:00:00''"]
  have p: "price_entries_are_objects detached_aggregator"
    by (simp add: price_entries_are_objects_def detached_aggregator_def)
  have r: "fst (get_protocol_data_try detached_aggregator ''aave'')
       = Inl (attribute_error JNull ''get'')"
    by (simp add: get_protocol_data_try_def session_get_def detached_aggregator_def io_defs)
  from t p have "is_obj (fst (fst (get_token_price detached_aggregator ''ethereum'' 0
        ''2024-01-01T00:00:00'' 0)))"
    by blast
  moreover from t r have "fst (get_protocol_data detached_aggregator ''aave'')
       = (JObj [(''error'', JStr (attribute_error JNull ''get''))], detached_aggregator)"
    by blast
  ultimately show ?thesis using p r by simp
qed


end
